theory Spec2Isabelle
  imports Complex_Main "HOL-Library.AList" "HOL-Library.Char_ord" "HOL-Library.List_Lexorder"
    "HOL-Library.Product_Lexorder" "HOL-Library.Log_Nat" "HOL-Library.Multiset"
begin

section \<open>Floats\<close>

text \<open>
  A Python float is an IEEE 754 double: a finite number \<open>m \<times> 2\<^sup>e\<close> with \<open>\<bar>m\<bar> < 2\<^sup>5\<^sup>3\<close> and
  \<open>-1074 \<le> e \<le> 971\<close>, an infinity, or NaN. A finite float is modelled by the real number
  it is; the sign of a zero is not modelled.
\<close>

datatype pyfloat = Finite real | PosInf | NegInf | NaN

text \<open>Rounding a real to the nearest integer, a tie going to the even one.\<close>

definition round_half_even :: "real \<Rightarrow> int" where
  "round_half_even x =
     (let f = \<lfloor>x\<rfloor>; d = x - of_int f
      in if d < 1 / 2 then f else if 1 / 2 < d then f + 1 else if even f then f else f + 1)"

text \<open>The binary exponent of a positive real \<open>x\<close>: the \<open>k\<close> with \<open>2\<^sup>k \<le> x < 2\<^sup>k\<^sup>+\<^sup>1\<close>.\<close>

definition ilog2 :: "real \<Rightarrow> int" where
  "ilog2 x = (if 1 \<le> x then bitlen \<lfloor>x\<rfloor> - 1 else - bitlen (\<lceil>1 / x\<rceil> - 1))"

text \<open>
  The exponent of the spacing of the doubles around \<open>x\<close>: 52 binary places below the
  exponent of \<open>x\<close>, and \<open>-1074\<close> for the subnormal numbers.
\<close>

definition ulp_exp :: "real \<Rightarrow> int" where
  "ulp_exp x = max (ilog2 \<bar>x\<bar>) (- 1022) - 52"

text \<open>
  The result of every IEEE operation: the exact result rounded to the nearest double, a tie
  going to the double with even significand, and to an infinity from \<open>2\<^sup>1\<^sup>0\<^sup>2\<^sup>4\<close> on. A float
  literal such as \<^verbatim>\<open>24.9\<close> denotes \<open>fl (249 / 10)\<close>.
\<close>

definition fl :: "real \<Rightarrow> pyfloat" where
  "fl x =
     (if x = 0 then Finite 0
      else
        (let q = 2 powi ulp_exp x; y = of_int (round_half_even (x / q)) * q
         in if 2 ^ 1024 \<le> y then PosInf else if y \<le> - (2 ^ 1024) then NegInf else Finite y))"

text \<open>\<^verbatim>\<open>a < b\<close> and \<^verbatim>\<open>a <= b\<close> on floats: false as soon as one side is NaN.\<close>

fun float_lt :: "pyfloat \<Rightarrow> pyfloat \<Rightarrow> bool" where
  "float_lt NaN b = False"
| "float_lt a NaN = False"
| "float_lt (Finite x) (Finite y) = (x < y)"
| "float_lt (Finite x) PosInf = True"
| "float_lt (Finite x) NegInf = False"
| "float_lt PosInf b = False"
| "float_lt NegInf NegInf = False"
| "float_lt NegInf b = True"

fun float_le :: "pyfloat \<Rightarrow> pyfloat \<Rightarrow> bool" where
  "float_le NaN b = False"
| "float_le a NaN = False"
| "float_le (Finite x) (Finite y) = (x \<le> y)"
| "float_le (Finite x) PosInf = True"
| "float_le (Finite x) NegInf = False"
| "float_le PosInf PosInf = True"
| "float_le PosInf b = False"
| "float_le NegInf b = True"

text \<open>The exceptions that the code of \<^verbatim>\<open>main.py\<close> can raise inside a handler.\<close>

datatype exn = ZeroDivisionError | OverflowError | ValidationError | TypeError

text \<open>
  \<^verbatim>\<open>a / b\<close> on floats. Python raises \<^verbatim>\<open>ZeroDivisionError\<close> for a zero divisor and otherwise
  returns the IEEE quotient, which may be an infinity or NaN.
\<close>

fun truediv :: "pyfloat \<Rightarrow> pyfloat \<Rightarrow> exn + pyfloat" where
  "truediv a (Finite y) =
     (if y = 0 then Inl ZeroDivisionError
      else Inr (case a of
                  Finite x \<Rightarrow> fl (x / y)
                | PosInf \<Rightarrow> if 0 < y then PosInf else NegInf
                | NegInf \<Rightarrow> if 0 < y then NegInf else PosInf
                | NaN \<Rightarrow> NaN))"
| "truediv a NaN = Inr NaN"
| "truediv (Finite x) b = Inr (Finite 0)"
| "truediv a b = Inr NaN"

text \<open>
  \<^verbatim>\<open>round(x, ndigits)\<close> on a float with \<^verbatim>\<open>ndigits \<ge> 0\<close>: the exact value of \<open>x\<close> is rounded to
  \<^verbatim>\<open>ndigits\<close> decimal places, a tie going to the even digit, and the decimal number
  obtained is converted to the nearest float. Infinities and NaN are returned as they are.
\<close>

fun py_round :: "pyfloat \<Rightarrow> nat \<Rightarrow> pyfloat" where
  "py_round (Finite x) ndigits = fl (of_int (round_half_even (x * 10 ^ ndigits)) / 10 ^ ndigits)"
| "py_round a ndigits = a"


section \<open>Values, dictionaries and the persisted collection\<close>

text \<open>
  \<^verbatim>\<open>main.py\<close> keeps every patient in one JSON file, \<^verbatim>\<open>patients.json\<close>: an object that maps
  a patient identifier to an object of fields. The handlers treat both levels as Python
  dictionaries (\<^verbatim>\<open>patient_id in data\<close>, \<^verbatim>\<open>x.get(sort_by, 0)\<close>,
  \<^verbatim>\<open>existring_patient_info[key] = value\<close>), so both are modelled as dictionaries.

  A field value is one of the scalars the program reads and writes: \<^verbatim>\<open>None\<close>, a string, an
  integer or a float.

  A Python dictionary keeps its keys in insertion order; \<^verbatim>\<open>d[k] = v\<close> overwrites the value
  of an existing key in place and appends a new key at the end. That is
  \<^const>\<open>AList.update\<close> on an association list, \<^verbatim>\<open>del d[k]\<close> is \<^const>\<open>AList.delete\<close>, \<^verbatim>\<open>d[k]\<close> is
  \<^const>\<open>map_of\<close> and \<^verbatim>\<open>k in d\<close> is membership in the list of keys.
\<close>

datatype pyval = PNone | PStr string | PInt int | PFloat pyfloat

type_synonym pydict = "(string \<times> pyval) list"

type_synonym store = "(string \<times> pydict) list"

section \<open>What the program takes from its platform\<close>

text \<open>
  Two things that \<^verbatim>\<open>main.py\<close> uses are neither in it nor fixed by the language, and are
  parameters of the model:
  \<^item> \<^verbatim>\<open>x ** n\<close> on a float, which CPython hands to the \<^verbatim>\<open>pow\<close> of the C library, whose
    last bit differs between libraries; it raises \<^verbatim>\<open>OverflowError\<close> when the result is
    too large;
  \<^item> the parsing of numeric strings that pydantic does for number fields in its default
    (lax) mode.
\<close>

record platform =
  float_pow :: "pyfloat \<Rightarrow> nat \<Rightarrow> exn + pyfloat"
  str_to_int :: "string \<Rightarrow> int option"
  str_to_float :: "string \<Rightarrow> pyfloat option"

section \<open>The record model\<close>

text \<open>
  \<^verbatim>\<open>class Patient(BaseModel)\<close>: seven declared fields and the two computed fields
  \<^verbatim>\<open>bmi\<close> and \<^verbatim>\<open>verdict\<close>.
\<close>

record Patient =
  id' :: string
  name :: string
  city :: string
  age :: int
  gender :: string
  height :: pyfloat
  weight :: pyfloat

text \<open>
  \<^verbatim>\<open>bmi = round(self.weight / (self.height / 100) ** 2, 2)\<close>. The power binds tighter than
  the division by it.
\<close>

definition bmi :: "platform \<Rightarrow> Patient \<Rightarrow> exn + pyfloat" where
  "bmi L self =
     (case truediv (height self) (Finite 100) of
        Inl e \<Rightarrow> Inl e
      | Inr q \<Rightarrow>
          (case float_pow L q 2 of
             Inl e \<Rightarrow> Inl e
           | Inr s \<Rightarrow>
               (case truediv (weight self) s of
                  Inl e \<Rightarrow> Inl e
                | Inr r \<Rightarrow> Inr (py_round r 2))))"

text \<open>The \<^verbatim>\<open>if\<close>/\<^verbatim>\<open>elif\<close> chain of \<^verbatim>\<open>verdict\<close>, in the order of the source.\<close>

definition verdict_of :: "pyfloat \<Rightarrow> string" where
  "verdict_of b =
     (if float_lt b (fl (185 / 10)) then ''Underweight''
      else if float_le (fl (185 / 10)) b \<and> float_lt b (fl (249 / 10)) then ''Healthy''
      else if float_le (Finite 25) b \<and> float_lt b (fl (299 / 10)) then ''Overweight''
      else ''Obese'')"

definition verdict :: "platform \<Rightarrow> Patient \<Rightarrow> exn + string" where
  "verdict L self = (case bmi L self of Inl e \<Rightarrow> Inl e | Inr b \<Rightarrow> Inr (verdict_of b))"

section \<open>Validation and serialisation of the record model\<close>

text \<open>
  \<^verbatim>\<open>Patient(**d)\<close> validates a dictionary of keyword arguments in pydantic's default (lax)
  mode: every declared field is required, keys that are not declared fields (such as a
  stored \<^verbatim>\<open>bmi\<close>) are ignored, a \<^verbatim>\<open>str\<close> field takes a string only, an \<^verbatim>\<open>int\<close> field takes an
  integer or a finite float without fractional part, a \<^verbatim>\<open>float\<close> field takes a float or an
  integer, which it converts to the nearest float if there is a finite one. Numeric strings
  are parsed by the platform.
\<close>

fun validate_str :: "pyval \<Rightarrow> string option" where
  "validate_str (PStr s) = Some s"
| "validate_str v = None"

fun validate_int :: "platform \<Rightarrow> pyval \<Rightarrow> int option" where
  "validate_int L (PInt i) = Some i"
| "validate_int L (PFloat (Finite r)) = (if r = of_int \<lfloor>r\<rfloor> then Some \<lfloor>r\<rfloor> else None)"
| "validate_int L (PFloat a) = None"
| "validate_int L (PStr s) = str_to_int L s"
| "validate_int L PNone = None"

fun validate_float :: "platform \<Rightarrow> pyval \<Rightarrow> pyfloat option" where
  "validate_float L (PInt i) = (case fl (of_int i) of Finite y \<Rightarrow> Some (Finite y) | a \<Rightarrow> None)"
| "validate_float L (PFloat a) = Some a"
| "validate_float L (PStr s) = str_to_float L s"
| "validate_float L PNone = None"

definition field_str :: "pydict \<Rightarrow> string \<Rightarrow> string option" where
  "field_str kw k = Option.bind (map_of kw k) validate_str"

text \<open>\<^verbatim>\<open>Field(..., gt=0, lt=120)\<close> on \<^verbatim>\<open>age\<close>.\<close>

definition field_age :: "platform \<Rightarrow> pydict \<Rightarrow> int option" where
  "field_age L kw =
     Option.bind (Option.bind (map_of kw ''age'') (validate_int L))
       (\<lambda>a. if 0 < a \<and> a < 120 then Some a else None)"

text \<open>\<^verbatim>\<open>Field(..., gt=0)\<close> on \<^verbatim>\<open>height\<close> and \<^verbatim>\<open>weight\<close>.\<close>

definition field_positive :: "platform \<Rightarrow> pydict \<Rightarrow> string \<Rightarrow> pyfloat option" where
  "field_positive L kw k =
     Option.bind (Option.bind (map_of kw k) (validate_float L))
       (\<lambda>x. if float_lt (Finite 0) x then Some x else None)"

definition Patient_fields :: "platform \<Rightarrow> pydict \<Rightarrow> Patient option" where
  "Patient_fields L kw =
     Option.bind (field_str kw ''id'') (\<lambda>i.
     Option.bind (field_str kw ''name'') (\<lambda>n.
     Option.bind (field_str kw ''city'') (\<lambda>c.
     Option.bind (field_age L kw) (\<lambda>a.
     Option.bind (field_str kw ''gender'') (\<lambda>g.
     Option.bind (field_positive L kw ''height'') (\<lambda>h.
     Option.bind (field_positive L kw ''weight'') (\<lambda>w.
       Some \<lparr>id' = i, name = n, city = c, age = a, gender = g, height = h, weight = w\<rparr>)))))))"

definition Patient_init :: "platform \<Rightarrow> pydict \<Rightarrow> exn + Patient" where
  "Patient_init L kw =
     (case Patient_fields L kw of None \<Rightarrow> Inl ValidationError | Some p \<Rightarrow> Inr p)"

text \<open>
  The constraints a \<^verbatim>\<open>Patient\<close> object satisfies once validated, as the request body
  of \<^verbatim>\<open>create_patient\<close> is before the handler runs.
\<close>

definition Patient_valid :: "Patient \<Rightarrow> bool" where
  "Patient_valid p \<longleftrightarrow>
     0 < age p \<and> age p < 120 \<and> float_lt (Finite 0) (height p) \<and> float_lt (Finite 0) (weight p)"

text \<open>
  \<^verbatim>\<open>patient.model_dump(exclude=['id'])\<close>: the declared fields in their order without
  \<^verbatim>\<open>id\<close>, followed by the computed fields, which pydantic serialises with the others.
  Evaluating a computed field may raise.
\<close>

definition model_dump_exclude_id :: "platform \<Rightarrow> Patient \<Rightarrow> exn + pydict" where
  "model_dump_exclude_id L p =
     (case bmi L p of
        Inl e \<Rightarrow> Inl e
      | Inr b \<Rightarrow>
          (case verdict L p of
             Inl e \<Rightarrow> Inl e
           | Inr v \<Rightarrow>
               Inr [(''name'', PStr (name p)), (''city'', PStr (city p)),
                    (''age'', PInt (age p)), (''gender'', PStr (gender p)),
                    (''height'', PFloat (height p)), (''weight'', PFloat (weight p)),
                    (''bmi'', PFloat b), (''verdict'', PStr v)]))"

text \<open>
  \<^verbatim>\<open>class PatientUpdate(BaseModel)\<close>: every field is optional with default \<^verbatim>\<open>None\<close>. A
  field is either not set by the request (\<open>None\<close>), set to \<^verbatim>\<open>null\<close> (\<open>Some None\<close>) or set
  to a value. FastAPI validates the request body before it calls the handler, so a value
  is one that the field admits: \<^verbatim>\<open>age\<close> an integer with \<^verbatim>\<open>gt=0, lt=120\<close>, \<^verbatim>\<open>gender\<close> one of
  the two literals, \<^verbatim>\<open>height\<close> and \<^verbatim>\<open>weight\<close> floats with \<^verbatim>\<open>gt=0\<close>.
\<close>

typedef age_value = "{a :: int. 0 < a \<and> a < 120}"
  by (rule exI [of _ 1]) simp

typedef positive_float = "{x :: pyfloat. float_lt (Finite 0) x}"
  by (rule exI [of _ "Finite 1"]) simp

datatype gender_literal = Male | Female

fun gender_str :: "gender_literal \<Rightarrow> string" where
  "gender_str Male = ''Male''"
| "gender_str Female = ''Female''"

record PatientUpdate =
  upd_name :: "string option option"
  upd_city :: "string option option"
  upd_age :: "age_value option option"
  upd_gender :: "gender_literal option option"
  upd_height :: "positive_float option option"
  upd_weight :: "positive_float option option"

definition dump_field :: "string \<Rightarrow> ('a \<Rightarrow> pyval) \<Rightarrow> 'a option option \<Rightarrow> pydict" where
  "dump_field k wrap f =
     (case f of None \<Rightarrow> [] | Some None \<Rightarrow> [(k, PNone)] | Some (Some v) \<Rightarrow> [(k, wrap v)])"

text \<open>\<^verbatim>\<open>patient_update.model_dump(exclude_unset=True)\<close>: the fields the request set.\<close>

definition model_dump_exclude_unset :: "PatientUpdate \<Rightarrow> pydict" where
  "model_dump_exclude_unset u =
     dump_field ''name'' PStr (upd_name u) @ dump_field ''city'' PStr (upd_city u) @
     dump_field ''age'' (\<lambda>a. PInt (Rep_age_value a)) (upd_age u) @
     dump_field ''gender'' (\<lambda>g. PStr (gender_str g)) (upd_gender u) @
     dump_field ''height'' (\<lambda>x. PFloat (Rep_positive_float x)) (upd_height u) @
     dump_field ''weight'' (\<lambda>x. PFloat (Rep_positive_float x)) (upd_weight u)"

section \<open>Storage accessor\<close>

text \<open>
  The state of the service is the content of \<^verbatim>\<open>patients.json\<close>. \<^verbatim>\<open>load_data\<close> reads all
  of it, \<^verbatim>\<open>save_data\<close> overwrites all of it.
\<close>

definition load_data :: "store \<Rightarrow> store" where
  "load_data file = file"

definition save_data :: "store \<Rightarrow> store \<Rightarrow> store" where
  "save_data data file = data"

section \<open>Request handlers\<close>

text \<open>
  What a handler returns: a dictionary for the framework to encode, an
  \<^verbatim>\<open>HTTPException\<close> object or a \<^verbatim>\<open>JSONResponse\<close>. A handler yields \<open>Inr\<close> of the value it
  returns, or \<open>Inl\<close> of the exception it raises, together with the content of the file
  afterwards.
\<close>

datatype response =
    PatientOne pydict
  | SortedList "pydict list"
  | PermutedList "pydict list"
  | HTTPException nat string
  | JSONResponse nat string

text \<open>
  \<open>PermutedList\<close> stands for a list that holds the given records in an order that the
  model does not determine; see \<open>sorted_py\<close> below.

  The status line FastAPI sends: a returned \<^verbatim>\<open>Response\<close> object carries its own status
  code, any other returned value is encoded as the body of a response with the status
  code of the route (200, no route of \<^verbatim>\<open>main.py\<close> sets another), and an exception that
  no handler catches gives 500. The encoder of the body refuses infinities and NaN with
  an exception.
\<close>

fun json_compliant :: "pyval \<Rightarrow> bool" where
  "json_compliant (PFloat (Finite x)) = True"
| "json_compliant (PFloat a) = False"
| "json_compliant v = True"

fun status_sent :: "exn + response \<Rightarrow> nat" where
  "status_sent (Inl e) = 500"
| "status_sent (Inr (JSONResponse code msg)) = code"
| "status_sent (Inr (PatientOne d)) = (if list_all (\<lambda>kv. json_compliant (snd kv)) d then 200 else 500)"
| "status_sent (Inr (SortedList ds)) =
     (if list_all (list_all (\<lambda>kv. json_compliant (snd kv))) ds then 200 else 500)"
| "status_sent (Inr (PermutedList ds)) =
     (if list_all (list_all (\<lambda>kv. json_compliant (snd kv))) ds then 200 else 500)"
| "status_sent (Inr (HTTPException code detail)) = 200"

definition view_patient :: "string \<Rightarrow> store \<Rightarrow> (exn + response) \<times> store" where
  "view_patient patient_id file =
     (let data = load_data file
      in case map_of data patient_id of
           Some d \<Rightarrow> (Inr (PatientOne d), file)
         | None \<Rightarrow> (Inr (HTTPException 404 ''Patient not found''), file))"

text \<open>\<^verbatim>\<open>x.get(k, default)\<close>\<close>

definition dict_get :: "pydict \<Rightarrow> string \<Rightarrow> pyval \<Rightarrow> pyval" where
  "dict_get x k dflt = (case map_of x k of None \<Rightarrow> dflt | Some v \<Rightarrow> v)"

text \<open>
  Python's \<^verbatim>\<open>sorted(xs, key=..., reverse=...)\<close>. Numbers compare with numbers by value and
  strings with strings by code points; any other comparison raises \<^verbatim>\<open>TypeError\<close>. A list
  of at most one element is returned without a comparison. The sort is stable, and with
  \<^verbatim>\<open>reverse=True\<close> the list is reversed before and after sorting, so that equal keys keep
  their order there too.

  Integers and floats other than NaN are ordered by value, the infinities below and above
  all finite numbers: \<open>num_key\<close> maps them into the pairs of a level and a real, ordered
  lexicographically. NaN is a float that is neither less nor greater than any number;
  with NaN among numeric keys \<^verbatim>\<open>sorted\<close> returns the elements in an order that depends
  on the comparisons its algorithm happens to make, which is not modelled: the result is
  \<open>InSomeOrder\<close>.
\<close>

fun is_number :: "pyval \<Rightarrow> bool" where
  "is_number (PInt i) = True"
| "is_number (PFloat NaN) = False"
| "is_number (PFloat a) = True"
| "is_number v = False"

fun is_nan :: "pyval \<Rightarrow> bool" where
  "is_nan (PFloat NaN) = True"
| "is_nan v = False"

fun num_key :: "pyval \<Rightarrow> int \<times> real" where
  "num_key (PInt i) = (0, of_int i)"
| "num_key (PFloat (Finite x)) = (0, x)"
| "num_key (PFloat PosInf) = (1, 0)"
| "num_key (PFloat NegInf) = (- 1, 0)"
| "num_key v = (0, 0)"


fun is_str :: "pyval \<Rightarrow> bool" where
  "is_str (PStr s) = True"
| "is_str v = False"

fun str_val :: "pyval \<Rightarrow> string" where
  "str_val (PStr s) = s"
| "str_val v = []"

definition stable_sort :: "('a \<Rightarrow> 'k::linorder) \<Rightarrow> bool \<Rightarrow> 'a list \<Rightarrow> 'a list" where
  "stable_sort f reverse xs = (if reverse then rev (sort_key f (rev xs)) else sort_key f xs)"

datatype 'a sorted_result = InOrder "'a list" | InSomeOrder "'a list"

definition sorted_py :: "('a \<Rightarrow> pyval) \<Rightarrow> bool \<Rightarrow> 'a list \<Rightarrow> exn + 'a sorted_result" where
  "sorted_py key reverse xs =
     (if length xs \<le> 1 then Inr (InOrder xs)
      else if list_all (\<lambda>x. is_number (key x)) xs
        then Inr (InOrder (stable_sort (\<lambda>x. num_key (key x)) reverse xs))
      else if list_all (\<lambda>x. is_str (key x)) xs
        then Inr (InOrder (stable_sort (\<lambda>x. str_val (key x)) reverse xs))
      else if list_all (\<lambda>x. is_number (key x) \<or> is_nan (key x)) xs
        then Inr (InSomeOrder xs)
      else Inl TypeError)"

definition valid_fields :: "string list" where
  "valid_fields = [''height'', ''weight'', ''bmi'']"

definition sort_patients :: "string \<Rightarrow> string \<Rightarrow> store \<Rightarrow> (exn + response) \<times> store" where
  "sort_patients sort_by order file =
     (if sort_by \<notin> set valid_fields
        then (Inr (HTTPException 400
                ''Invalid sort field selected from ['height', 'weight', 'bmi']''), file)
      else if order \<notin> set [''asc'', ''desc'']
        then (Inr (HTTPException 400
                ''Invalid sort order selected. Please select asc or desc''), file)
      else
        (let data = load_data file
         in case sorted_py (\<lambda>x. dict_get x sort_by (PInt 0)) (order = ''desc'') (map snd data) of
              Inl e \<Rightarrow> (Inl e, file)
            | Inr (InOrder sorted_data) \<Rightarrow> (Inr (SortedList sorted_data), file)
            | Inr (InSomeOrder sorted_data) \<Rightarrow> (Inr (PermutedList sorted_data), file)))"

text \<open>
  \<^verbatim>\<open>create_patient\<close> writes the file twice with the same collection: once itself, once
  through \<^verbatim>\<open>save_data\<close>.
\<close>

definition create_patient :: "platform \<Rightarrow> Patient \<Rightarrow> store \<Rightarrow> (exn + response) \<times> store" where
  "create_patient L patient file =
     (let data = load_data file
      in if id' patient \<in> fst ` set data
           then (Inr (HTTPException 400 ''Patient with this ID already exists''), file)
         else
           (case model_dump_exclude_id L patient of
              Inl e \<Rightarrow> (Inl e, file)
            | Inr d \<Rightarrow>
                (let data = AList.update (id' patient) d data
                 in (Inr (JSONResponse 201 ''Patient created successfully''),
                     save_data data (save_data data file)))))"

text \<open>The loop \<^verbatim>\<open>for key, value in updated_patient_info.items()\<close> of \<^verbatim>\<open>update_patient\<close>.\<close>

fun merge_items :: "pydict \<Rightarrow> pydict \<Rightarrow> pydict" where
  "merge_items existing [] = existing"
| "merge_items existing ((key, val) # items) = merge_items (AList.update key val existing) items"

definition merged_info :: "string \<Rightarrow> pydict \<Rightarrow> PatientUpdate \<Rightarrow> pydict" where
  "merged_info patient_id existing patient_update =
     AList.update ''id'' (PStr patient_id)
       (merge_items existing (model_dump_exclude_unset patient_update))"

definition update_patient ::
  "platform \<Rightarrow> string \<Rightarrow> PatientUpdate \<Rightarrow> store \<Rightarrow> (exn + response) \<times> store" where
  "update_patient L patient_id patient_update file =
     (let data = load_data file
      in case map_of data patient_id of
           None \<Rightarrow> (Inr (JSONResponse 404 ''Patient not found''), file)
         | Some existing \<Rightarrow>
             (case Patient_init L (merged_info patient_id existing patient_update) of
                Inl e \<Rightarrow> (Inl e, file)
              | Inr obj \<Rightarrow>
                  (case model_dump_exclude_id L obj of
                     Inl e \<Rightarrow> (Inl e, file)
                   | Inr d \<Rightarrow>
                       (Inr (JSONResponse 200 ''Patient updated successfully''),
                        save_data (AList.update patient_id d data) file))))"

definition delete_patient :: "string \<Rightarrow> store \<Rightarrow> (exn + response) \<times> store" where
  "delete_patient patient_id file =
     (let data = load_data file
      in if patient_id \<notin> fst ` set data
           then (Inr (JSONResponse 404 ''Patient not found''), file)
         else (Inr (JSONResponse 200 ''Patient deleted successfully''),
               save_data (AList.delete patient_id data) file))"

section \<open>A platform\<close>

text \<open>
  A platform for the concrete runs below: its \<^verbatim>\<open>**\<close> rounds the exact power correctly
  and raises \<^verbatim>\<open>OverflowError\<close> when that is infinite (every C library does so where the
  exact power is itself a double). Its pydantic accepts no string as a number.
\<close>

fun cr_pow :: "pyfloat \<Rightarrow> nat \<Rightarrow> exn + pyfloat" where
  "cr_pow a 0 = Inr (Finite 1)"
| "cr_pow (Finite x) n =
     (case fl (x ^ n) of Finite y \<Rightarrow> Inr (Finite y) | b \<Rightarrow> Inl OverflowError)"
| "cr_pow PosInf n = Inr PosInf"
| "cr_pow NegInf n = Inr (if even n then PosInf else NegInf)"
| "cr_pow NaN n = Inr NaN"

section \<open>Example data\<close>

text \<open>The concrete platform, patients and file contents at which the theorems below are
  instantiated.\<close>

abbreviation plain :: platform where
  "plain \<equiv> \<lparr>float_pow = cr_pow, str_to_int = \<lambda>s. None, str_to_float = \<lambda>s. None\<rparr>"

abbreviation mary :: Patient where
  "mary \<equiv> \<lparr>id' = ''P003'', name = ''Mary'', city = ''Oslo'', age = 52,
     gender = ''Female'', height = Finite 200, weight = Finite 100\<rparr>"

abbreviation omar :: Patient where
  "omar \<equiv> \<lparr>id' = ''P004'', name = ''Omar'', city = ''Rabat'', age = 8,
     gender = ''Male'', height = Finite 160, weight = Finite 24\<rparr>"

abbreviation rosa :: Patient where
  "rosa \<equiv> \<lparr>id' = ''P005'', name = ''Rosa'', city = ''Lima'', age = 9,
     gender = ''Female'', height = Finite 125, weight = Finite (4979 / 128)\<rparr>"

abbreviation nils :: Patient where
  "nils \<equiv> \<lparr>id' = ''P006'', name = ''Nils'', city = ''Bergen'', age = 33,
     gender = ''Male'', height = Finite 200, weight = Finite (161 / 2)\<rparr>"

abbreviation ines :: Patient where
  "ines \<equiv> \<lparr>id' = ''P007'', name = ''Ines'', city = ''Porto'', age = 7,
     gender = ''Female'', height = Finite 100, weight = Finite (399 / 16)\<rparr>"

abbreviation rec_mary :: pydict where
  "rec_mary \<equiv> [(''name'', PStr ''Mary''), (''city'', PStr ''Oslo''), (''age'', PInt 52),
     (''gender'', PStr ''Female''), (''height'', PFloat (Finite 200)),
     (''weight'', PFloat (Finite 100)), (''bmi'', PFloat (Finite 25)),
     (''verdict'', PStr ''Overweight'')]"

abbreviation rec_A :: pydict where
  "rec_A \<equiv> [(''name'', PStr ''A''), (''city'', PStr ''Rome''), (''age'', PInt 30),
     (''gender'', PStr ''Male''), (''height'', PFloat (Finite 180)),
     (''weight'', PFloat (Finite 75)), (''bmi'', PFloat (fl (2315 / 100))),
     (''verdict'', PStr ''Healthy'')]"

abbreviation rec_B :: pydict where
  "rec_B \<equiv> [(''name'', PStr ''B''), (''city'', PStr ''Lima''), (''age'', PInt 25),
     (''gender'', PStr ''Female''), (''height'', PFloat (Finite 160)),
     (''weight'', PFloat (Finite 50)), (''bmi'', PFloat (fl (1953 / 100))),
     (''verdict'', PStr ''Healthy'')]"

abbreviation file_AB :: store where
  "file_AB \<equiv> [(''A'', rec_A), (''B'', rec_B)]"

text \<open>
  Records as a hand-edited file may hold them: \<open>rec_W\<close> with a negative weight, \<open>rec_N\<close>
  without a height, \<open>rec_T\<close> with the height written as an integer, \<open>rec_S\<close> with the
  height written as a string.
\<close>

abbreviation rec_W :: pydict where
  "rec_W \<equiv> [(''name'', PStr ''W''), (''city'', PStr ''Riga''), (''age'', PInt 40),
     (''gender'', PStr ''Male''), (''height'', PFloat (Finite 170)),
     (''weight'', PFloat (Finite (- 5)))]"






text \<open>
  Update requests: \<open>unset\<close> sets no field, \<open>weight_64\<close> sets the weight to 64 kg and
  \<open>to_kyiv\<close> the city to Kyiv.
\<close>

abbreviation unset :: PatientUpdate where
  "unset \<equiv> \<lparr>upd_name = None, upd_city = None, upd_age = None, upd_gender = None,
     upd_height = None, upd_weight = None\<rparr>"

abbreviation weight_64 :: PatientUpdate where
  "weight_64 \<equiv> unset\<lparr>upd_weight := Some (Some (Abs_positive_float (Finite 64)))\<rparr>"

abbreviation to_kyiv :: PatientUpdate where
  "to_kyiv \<equiv> unset\<lparr>upd_city := Some (Some ''Kyiv'')\<rparr>"

section \<open>Rounding to the nearest double\<close>

lemma ilog2_bounds:
  assumes "0 < x"
  shows "2 powi (ilog2 x) \<le> x \<and> x < 2 powi (ilog2 x + 1)"
proof (cases "1 \<le> x")
  case True
  then have pos: "0 < \<lfloor>x\<rfloor>" by linarith
  have k: "ilog2 x = bitlen \<lfloor>x\<rfloor> - 1"
    using True by (simp add: ilog2_def)
  from pos have ge1: "1 \<le> bitlen \<lfloor>x\<rfloor>"
    by (simp add: bitlen_alt_def)
  from bitlen_bounds [OF pos]
  have lo: "(2::int) ^ nat (bitlen \<lfloor>x\<rfloor> - 1) \<le> \<lfloor>x\<rfloor>" and hi: "\<lfloor>x\<rfloor> < 2 ^ nat (bitlen \<lfloor>x\<rfloor>)"
    by auto
  from lo have "real_of_int (2 ^ nat (bitlen \<lfloor>x\<rfloor> - 1)) \<le> x"
    by linarith
  then have a: "2 powi (ilog2 x) \<le> x"
    using ge1 by (simp add: k power_int_def)
  from hi have "x < real_of_int (2 ^ nat (bitlen \<lfloor>x\<rfloor>))"
    using floor_less_iff by blast
  then have b: "x < 2 powi (ilog2 x + 1)"
    using ge1 by (simp add: k power_int_def)
  from a b show ?thesis ..
next
  case False
  with assms have y1: "1 < 1 / x" by simp
  define m where "m = \<lceil>1 / x\<rceil> - 1"
  have k: "ilog2 x = - bitlen m"
    using False by (simp add: ilog2_def m_def)
  from y1 have pos: "0 < m"
    unfolding m_def by linarith
  have my: "real_of_int m < 1 / x" and ym: "1 / x \<le> real_of_int m + 1"
    unfolding m_def by linarith+
  from pos have ge1: "1 \<le> bitlen m"
    by (simp add: bitlen_alt_def)
  from bitlen_bounds [OF pos]
  have lo: "(2::int) ^ nat (bitlen m - 1) \<le> m" and hi: "m < 2 ^ nat (bitlen m)"
    by auto
  from hi have "m + 1 \<le> 2 ^ nat (bitlen m)" by simp
  then have "real_of_int (m + 1) \<le> real_of_int (2 ^ nat (bitlen m))"
    using of_int_le_iff by blast
  with ym have "1 / x \<le> 2 ^ nat (bitlen m)" by simp
  with assms have "1 / 2 ^ nat (bitlen m) \<le> x"
    by (simp add: field_simps)
  then have a: "2 powi (ilog2 x) \<le> x"
    using ge1 by (simp add: k power_int_def field_simps)
  from lo have "real_of_int (2 ^ nat (bitlen m - 1)) \<le> real_of_int m"
    using of_int_le_iff by blast
  then have "(2::real) ^ nat (bitlen m - 1) \<le> real_of_int m" by simp
  with my have "2 ^ nat (bitlen m - 1) < 1 / x" by linarith
  with assms have xlt: "x < 1 / 2 ^ nat (bitlen m - 1)"
    by (simp add: field_simps)
  have b: "x < 2 powi (ilog2 x + 1)"
  proof (cases "bitlen m = 1")
    case True
    with xlt show ?thesis by (simp add: k)
  next
    case False
    with ge1 have "nat (- (- bitlen m + 1)) = nat (bitlen m - 1)" and "- bitlen m + 1 < 0"
      by auto
    with xlt show ?thesis
      by (simp add: k power_int_def field_simps)
  qed
  from a b show ?thesis ..
qed

lemma ilog2_unique:
  assumes "2 powi k \<le> x" and "x < 2 powi (k + 1)"
  shows "ilog2 x = k"
proof -
  have "0 < (2::real) powi k" by simp
  with assms(1) have pos: "0 < x" by linarith
  from ilog2_bounds [OF pos]
  have lo: "2 powi (ilog2 x) \<le> x" and hi: "x < 2 powi (ilog2 x + 1)"
    by auto
  have "\<not> ilog2 x < k"
  proof
    assume "ilog2 x < k"
    then have "(2::real) powi (ilog2 x + 1) \<le> 2 powi k"
      by (intro power_int_increasing) auto
    with hi assms(1) show False by linarith
  qed
  moreover have "\<not> k < ilog2 x"
  proof
    assume "k < ilog2 x"
    then have "(2::real) powi (k + 1) \<le> 2 powi (ilog2 x)"
      by (intro power_int_increasing) auto
    with lo assms(2) show False by linarith
  qed
  ultimately show ?thesis by linarith
qed

lemma round_half_even_near: "\<bar>of_int (round_half_even x) - x\<bar> \<le> 1 / 2"
proof -
  have lo: "of_int \<lfloor>x\<rfloor> \<le> x" and hi: "x < of_int \<lfloor>x\<rfloor> + 1"
    by linarith+
  show ?thesis
    using lo hi by (auto simp: round_half_even_def Let_def)
qed

lemma round_half_even_of_int [simp]: "round_half_even (of_int n) = n"
  by (simp add: round_half_even_def)

lemma round_half_even_small:
  assumes "\<bar>z\<bar> \<le> 1 / 2"
  shows "round_half_even z = 0"
proof -
  consider "0 \<le> z" | "z < 0" by linarith
  then show ?thesis
  proof cases
    case 1
    with assms have "\<lfloor>z\<rfloor> = 0"
      by (intro floor_unique) auto
    with assms 1 show ?thesis
      by (simp add: round_half_even_def Let_def)
  next
    case 2
    with assms have "\<lfloor>z\<rfloor> = - 1"
      by (intro floor_unique) auto
    with assms 2 show ?thesis
      by (auto simp: round_half_even_def Let_def)
  qed
qed

text \<open>A number in the normal range of exponent \<open>k\<close> is rounded at \<open>2\<^sup>k\<^sup>-\<^sup>5\<^sup>2\<close>.\<close>

lemma fl_normal:
  assumes lo: "2 powi k \<le> \<bar>x\<bar>" and hi: "\<bar>x\<bar> < 2 powi (k + 1)"
    and k: "- 1022 \<le> k" "k \<le> 1022"
  shows "fl x = Finite (of_int (round_half_even (x / 2 powi (k - 52))) * 2 powi (k - 52))"
proof -
  let ?q = "(2::real) powi (k - 52)"
  let ?m = "round_half_even (x / ?q)"
  have q: "0 < ?q" by simp
  have "0 < (2::real) powi k" by simp
  with lo have "0 < \<bar>x\<bar>" by linarith
  then have x0: "x \<noteq> 0" by simp
  have e: "ulp_exp x = k - 52"
    using ilog2_unique [OF lo hi] k by (simp add: ulp_exp_def)
  have split: "(2::real) powi (k + 1) = 2 ^ 53 * ?q"
    by (simp add: power_int_diff power_int_add)
  have "\<bar>x / ?q\<bar> < 2 ^ 53"
    using hi q unfolding split by (simp add: abs_mult field_simps)
  with round_half_even_near [of "x / ?q"] have "\<bar>real_of_int ?m\<bar> < 2 ^ 53 + 1"
    by linarith
  then have "\<bar>?m\<bar> < 2 ^ 53 + 1"
    by (metis (mono_tags) of_int_abs of_int_less_iff of_int_numeral of_int_power of_int_add of_int_1)
  then have "\<bar>?m\<bar> \<le> 2 ^ 53" by linarith
  then have "\<bar>real_of_int ?m\<bar> \<le> 2 ^ 53"
    by (metis (mono_tags) of_int_abs of_int_le_iff of_int_numeral of_int_power)
  then have "\<bar>real_of_int ?m * ?q\<bar> \<le> 2 ^ 53 * ?q"
    using q by (simp add: abs_mult)
  also have "\<dots> = 2 powi (k + 1)"
    by (simp add: split)
  also have "\<dots> \<le> 2 powi 1023"
    using k by (intro power_int_increasing) auto
  also have "\<dots> < (2::real) ^ 1024"
    by simp
  finally have "\<bar>real_of_int ?m * ?q\<bar> < 2 ^ 1024" .
  then show ?thesis
    using x0 by (simp add: fl_def e Let_def abs_less_iff)
qed

text \<open>What is at most half the smallest positive double is rounded to zero.\<close>

lemma fl_underflow:
  assumes "\<bar>x\<bar> \<le> 2 powi (- 1075)"
  shows "fl x = Finite 0"
proof (cases "x = 0")
  case True
  then show ?thesis by (simp add: fl_def)
next
  case False
  then have pos: "0 < \<bar>x\<bar>" by simp
  have "\<not> - 1022 < ilog2 \<bar>x\<bar>"
  proof
    assume "- 1022 < ilog2 \<bar>x\<bar>"
    then have "(2::real) powi (- 1075) < 2 powi (ilog2 \<bar>x\<bar>)"
      by (intro power_int_strict_increasing) auto
    with ilog2_bounds [OF pos] assms show False by linarith
  qed
  then have e: "ulp_exp x = - 1074"
    by (simp add: ulp_exp_def)
  define q where "q = (2::real) powi (- 1074)"
  have q: "0 < q" by (simp add: q_def)
  have "(2::real) powi (- 1075) = 2 powi (- 1074 - 1)" by simp
  also have "\<dots> = q / 2"
    unfolding q_def by (subst power_int_diff) simp_all
  finally have "\<bar>x\<bar> \<le> q / 2"
    using assms by simp
  with q have "\<bar>x\<bar> / q \<le> 1 / 2"
    by (simp add: field_simps)
  with q have "\<bar>x / q\<bar> \<le> 1 / 2"
    by (simp add: abs_divide)
  then have "round_half_even (x / q) = 0"
    by (rule round_half_even_small)
  with False show ?thesis
    unfolding fl_def Let_def e q_def [symmetric] by simp
qed

text \<open>From \<open>2\<^sup>1\<^sup>0\<^sup>2\<^sup>4\<close> on the result is infinite.\<close>

lemma fl_overflow:
  assumes "2 ^ 1024 \<le> x"
  shows "fl x = PosInf"
proof -
  have pos: "0 < x" using assms by (smt (verit) zero_less_power)
  let ?k = "ilog2 \<bar>x\<bar>"
  let ?q = "(2::real) powi (?k - 52)"
  from pos ilog2_bounds [of "\<bar>x\<bar>"] have lo: "2 powi ?k \<le> x" and hi: "x < 2 powi (?k + 1)"
    by auto
  have "\<not> ?k < 1024"
  proof
    assume "?k < 1024"
    then have "(2::real) powi (?k + 1) \<le> 2 powi 1024"
      by (intro power_int_increasing) auto
    with hi assms show False by simp
  qed
  then have k: "1024 \<le> ?k" by simp
  then have e: "ulp_exp x = ?k - 52"
    by (simp add: ulp_exp_def)
  have split: "(2::real) powi ?k = 2 ^ 52 * ?q"
    by (simp add: power_int_diff)
  have q: "0 < ?q" by simp
  from lo have "2 ^ 52 \<le> x / ?q"
    unfolding split using q by (simp add: field_simps)
  then have "real_of_int (2 ^ 52) \<le> x / ?q" by simp
  then have "2 ^ 52 \<le> \<lfloor>x / ?q\<rfloor>"
    using le_floor_iff by blast
  moreover have "\<lfloor>x / ?q\<rfloor> \<le> round_half_even (x / ?q)"
    by (simp add: round_half_even_def Let_def)
  ultimately have "2 ^ 52 \<le> round_half_even (x / ?q)" by linarith
  then have "real_of_int (2 ^ 52) \<le> real_of_int (round_half_even (x / ?q))"
    using of_int_le_iff by blast
  then have "2 ^ 52 * ?q \<le> real_of_int (round_half_even (x / ?q)) * ?q"
    using q by simp
  moreover have "(2::real) ^ 1024 \<le> 2 powi ?k"
    using k power_int_increasing [of 1024 ?k "2::real"] by simp
  ultimately have "2 ^ 1024 \<le> real_of_int (round_half_even (x / ?q)) * ?q"
    unfolding split by linarith
  then show ?thesis
    using pos by (simp add: fl_def e Let_def)
qed

text \<open>The doubles nearest to some numbers.\<close>

lemma fl_1: "fl 1 = Finite 1"
  using fl_normal [of 0 1] by (simp add: round_half_even_def Let_def)

lemma fl_2: "fl 2 = Finite 2"
  using fl_normal [of 1 2] by (simp add: round_half_even_def Let_def)

lemma fl_4: "fl 4 = Finite 4"
  using fl_normal [of 2 4] by (simp add: round_half_even_def Let_def)

lemma fl_20: "fl 20 = Finite 20"
  using fl_normal [of 4 20] by (simp add: round_half_even_def Let_def)

lemma fl_25: "fl 25 = Finite 25"
  using fl_normal [of 4 25] by (simp add: round_half_even_def Let_def)

lemma fl_18_5: "fl (37 / 2) = Finite (37 / 2)"
  using fl_normal [of 4 "37 / 2"] by (simp add: round_half_even_def Let_def)

lemma fl_24_9: "fl (249 / 10) = Finite (3504363460047667 / 140737488355328)"
  using fl_normal [of 4 "249 / 10"] by (simp add: round_half_even_def Let_def)

lemma fl_29_9: "fl (299 / 10) = Finite (4208050901824307 / 140737488355328)"
  using fl_normal [of 4 "299 / 10"] by (simp add: round_half_even_def Let_def)

lemma fl_24_94: "fl (1247 / 50) = Finite (7019985919163761 / 281474976710656)"
  using fl_normal [of 4 "1247 / 50"] by (simp add: round_half_even_def Let_def)

lemma fl_24_89: "fl (2489 / 100) = Finite (1751478042582057 / 70368744177664)"
  using fl_normal [of 4 "2489 / 100"] by (simp add: round_half_even_def Let_def)

lemma fl_20_12: "fl (503 / 25) = Finite (5663276531418399 / 281474976710656)"
  using fl_normal [of 4 "503 / 25"] by (simp add: round_half_even_def Let_def)

lemma fl_23_15: "fl (463 / 20) = Finite (3258072855425843 / 140737488355328)"
  using fl_normal [of 4 "463 / 20"] by (simp add: round_half_even_def Let_def)

lemma fl_19_53: "fl (1953 / 100) = Finite (687150786894889 / 35184372088832)"
  using fl_normal [of 4 "1953 / 100"] by (simp add: round_half_even_def Let_def)

lemma fl_1_6: "fl (8 / 5) = Finite (3602879701896397 / 2251799813685248)"
  using fl_normal [of 0 "8 / 5"] by (simp add: round_half_even_def Let_def)

lemma fl_1_25: "fl (5 / 4) = Finite (5 / 4)"
  using fl_normal [of 0 "5 / 4"] by (simp add: round_half_even_def Let_def)

lemma fl_1_5625: "fl (25 / 16) = Finite (25 / 16)"
  using fl_normal [of 0 "25 / 16"] by (simp add: round_half_even_def Let_def)

lemma fl_24_9375: "fl (399 / 16) = Finite (399 / 16)"
  using fl_normal [of 4 "399 / 16"] by (simp add: round_half_even_def Let_def)

lemma fl_20_125: "fl (161 / 8) = Finite (161 / 8)"
  using fl_normal [of 4 "161 / 8"] by (simp add: round_half_even_def Let_def)

lemma fl_24_895: "fl (4979 / 200) = Finite (7007319545211781 / 281474976710656)"
  using fl_normal [of 4 "4979 / 200"] by (simp add: round_half_even_def Let_def)

lemma fl_1_6_squared: "fl (12980742146337070512478121581609 / 5070602400912917605986812821504) = Finite (1441151880758559 / 562949953421312)"
  using fl_normal [of 1 "12980742146337070512478121581609 / 5070602400912917605986812821504"] by (simp add: round_half_even_def Let_def)

lemma fl_24_by_2_56: "fl (4503599627370496 / 480383960252853) = Finite (5277655813324799 / 562949953421312)"
  using fl_normal [of 3 "4503599627370496 / 480383960252853"] by (simp add: round_half_even_def Let_def)

lemma fl_64_by_2_56: "fl (36028797018963968 / 1441151880758559) = Finite (7036874417766399 / 281474976710656)"
  using fl_normal [of 4 "36028797018963968 / 1441151880758559"] by (simp add: round_half_even_def Let_def)

lemmas fl_values =
  fl_64_by_2_56 fl_1 fl_2 fl_4 fl_20 fl_25 fl_18_5 fl_24_9 fl_29_9 fl_24_94 fl_24_89 fl_20_12 fl_23_15 fl_19_53 fl_1_6 fl_1_25 fl_1_5625 fl_24_9375 fl_20_125 fl_24_895 fl_1_6_squared fl_24_by_2_56

section \<open>The derived fields\<close>

lemma cr_pow_2:
  "cr_pow (Finite x) 2 =
     (case fl (x * x) of Finite y \<Rightarrow> Inr (Finite y) | PosInf \<Rightarrow> Inl OverflowError
      | NegInf \<Rightarrow> Inl OverflowError | NaN \<Rightarrow> Inl OverflowError)"
  by (simp add: numeral_2_eq_2)

lemma bmi_mary: "bmi plain mary = Inr (Finite 25)"
  by (simp add: bmi_def cr_pow_2 fl_values round_half_even_def Let_def)

lemma bmi_omar: "bmi plain omar = Inr (fl (937 / 100))"
  by (simp add: bmi_def cr_pow_2 fl_values round_half_even_def Let_def)

lemma bmi_rosa: "bmi plain rosa = Inr (fl (2489 / 100))"
  by (simp add: bmi_def cr_pow_2 fl_values round_half_even_def Let_def)

lemma bmi_nils: "bmi plain nils = Inr (fl (2012 / 100))"
  by (simp add: bmi_def cr_pow_2 fl_values round_half_even_def Let_def)

lemma bmi_ines: "bmi plain ines = Inr (fl (2494 / 100))"
  by (simp add: bmi_def cr_pow_2 fl_values round_half_even_def Let_def)



text \<open>
  C2. For every patient record whose bmi is computed, with height > 0 and weight > 0 or
  not, the derived verdict is Underweight if bmi < 18.5, Healthy if 18.5 \<le> bmi < 24.9,
  Overweight if 25 \<le> bmi < 29.9 and Obese otherwise, in particular for every bmi in the gap
  from 24.9 to 25. When the computation of the bmi raises an exception, the verdict raises
  it too.
\<close>

theorem verdict_thresholds:
  "(\<forall>b. bmi L p = Inr b \<longrightarrow>
      (float_lt b (fl (185 / 10)) \<longrightarrow> verdict L p = Inr ''Underweight'') \<and>
      (float_le (fl (185 / 10)) b \<and> float_lt b (fl (249 / 10)) \<longrightarrow>
         verdict L p = Inr ''Healthy'') \<and>
      (float_le (Finite 25) b \<and> float_lt b (fl (299 / 10)) \<longrightarrow>
         verdict L p = Inr ''Overweight'') \<and>
      (float_le (fl (249 / 10)) b \<and> float_lt b (Finite 25) \<longrightarrow> verdict L p = Inr ''Obese'') \<and>
      (\<not> float_lt b (fl (185 / 10)) \<and>
       \<not> (float_le (fl (185 / 10)) b \<and> float_lt b (fl (249 / 10))) \<and>
       \<not> (float_le (Finite 25) b \<and> float_lt b (fl (299 / 10))) \<longrightarrow>
         verdict L p = Inr ''Obese''))
   \<and> (\<forall>e. bmi L p = Inl e \<longrightarrow> verdict L p = Inl e)"
proof (intro conjI allI impI)
  fix b
  assume b: "bmi L p = Inr b"
  then have v: "verdict L p = Inr (verdict_of b)"
    by (simp add: verdict_def)
  show "verdict L p = Inr ''Underweight''" if "float_lt b (fl (185 / 10))"
    using that by (simp add: v verdict_of_def)
  show "verdict L p = Inr ''Healthy''"
    if "float_le (fl (185 / 10)) b \<and> float_lt b (fl (249 / 10))"
    using that by (cases b) (auto simp: v verdict_of_def fl_values)
  show "verdict L p = Inr ''Overweight''"
    if "float_le (Finite 25) b \<and> float_lt b (fl (299 / 10))"
    using that by (cases b) (auto simp: v verdict_of_def fl_values)
  show "verdict L p = Inr ''Obese''"
    if "float_le (fl (249 / 10)) b \<and> float_lt b (Finite 25)"
    using that by (cases b) (auto simp: v verdict_of_def fl_values)
  show "verdict L p = Inr ''Obese''"
    if "\<not> float_lt b (fl (185 / 10)) \<and>
       \<not> (float_le (fl (185 / 10)) b \<and> float_lt b (fl (249 / 10))) \<and>
       \<not> (float_le (Finite 25) b \<and> float_lt b (fl (299 / 10)))"
    using that by (simp add: v verdict_of_def)
next
  fix e
  assume "bmi L p = Inl e"
  then show "verdict L p = Inl e"
    by (simp add: verdict_def)
qed

text \<open>
  The bmi of \<open>ines\<close> is 24.94, in the gap, and her verdict is Obese; the bmi of \<open>rosa\<close> is
  24.89 and her verdict is Healthy; that of \<open>mary\<close> is 25 and her verdict is Overweight.
\<close>

theorem verdict_thresholds_witness:
  "bmi plain ines = Inr (fl (2494 / 100))
   \<and> float_le (fl (249 / 10)) (fl (2494 / 100)) \<and> float_lt (fl (2494 / 100)) (Finite 25)
   \<and> verdict plain ines = Inr ''Obese''
   \<and> verdict plain rosa = Inr ''Healthy''
   \<and> verdict plain mary = Inr ''Overweight''"
proof -
  have gap: "float_le (fl (249 / 10)) (fl (2494 / 100)) \<and> float_lt (fl (2494 / 100)) (Finite 25)"
    by (simp add: fl_values)
  have healthy: "float_le (fl (185 / 10)) (fl (2489 / 100)) \<and>
      float_lt (fl (2489 / 100)) (fl (249 / 10))"
    by (simp add: fl_values)
  have over: "float_le (Finite 25) (Finite 25) \<and> float_lt (Finite 25) (fl (299 / 10))"
    by (simp add: fl_values)
  from verdict_thresholds [of plain ines] bmi_ines gap
  have "verdict plain ines = Inr ''Obese''" by blast
  moreover from verdict_thresholds [of plain rosa] bmi_rosa healthy
  have "verdict plain rosa = Inr ''Healthy''" by blast
  moreover from verdict_thresholds [of plain mary] bmi_mary over
  have "verdict plain mary = Inr ''Overweight''" by blast
  ultimately show ?thesis
    using bmi_ines gap by blast
qed

section \<open>Where the computation leaves the finite numbers\<close>

text \<open>
  A height so small that the square of the height in metres is rounded to zero makes the
  division raise \<^verbatim>\<open>ZeroDivisionError\<close>; a height so large that the square is infinite makes
  the power raise \<^verbatim>\<open>OverflowError\<close>; and where the quotient itself is too large, the bmi is
  the float infinity, whose verdict is Obese.
\<close>

lemma bmi_zero_division:
  "bmi plain (mary\<lparr>height := Finite (1 / 2 ^ 600)\<rparr>) = Inl ZeroDivisionError"
proof -
  have q: "fl (1 / 2 ^ 600 / 100) = Finite (5764607523034235 / 2 ^ 659)"
    using fl_normal [of "- 607" "1 / 2 ^ 600 / 100"] by (simp add: round_half_even_def Let_def)
  have s: "fl (5764607523034235 / 2 ^ 659 * (5764607523034235 / 2 ^ 659)) = Finite 0"
    by (rule fl_underflow) simp
  from q s show ?thesis
    by (simp add: bmi_def cr_pow_2)
qed

lemma bmi_overflow:
  "bmi plain (mary\<lparr>height := Finite (2 ^ 700)\<rparr>) = Inl OverflowError"
proof -
  have q: "fl (2 ^ 700 / 100) = Finite (5764607523034235 * 2 ^ 641)"
    using fl_normal [of 693 "2 ^ 700 / 100"] by (simp add: round_half_even_def Let_def)
  have s: "fl (5764607523034235 * 2 ^ 641 * (5764607523034235 * 2 ^ 641)) = PosInf"
    by (rule fl_overflow) simp
  from q s show ?thesis
    by (simp add: bmi_def cr_pow_2)
qed

lemma bmi_infinite:
  "bmi plain (mary\<lparr>height := Finite (1 / 2 ^ 500), weight := Finite (2 ^ 600)\<rparr>) = Inr PosInf"
  "verdict plain (mary\<lparr>height := Finite (1 / 2 ^ 500), weight := Finite (2 ^ 600)\<rparr>) =
     Inr ''Obese''"
proof -
  have q: "fl (1 / 2 ^ 500 / 100) = Finite (5764607523034235 / 2 ^ 559)"
    using fl_normal [of "- 507" "1 / 2 ^ 500 / 100"] by (simp add: round_half_even_def Let_def)
  have s: "fl (5764607523034235 / 2 ^ 559 * (5764607523034235 / 2 ^ 559)) =
      Finite (7378697629483821 / 2 ^ 1066)"
    using fl_normal [of "- 1014" "5764607523034235 / 2 ^ 559 * (5764607523034235 / 2 ^ 559)"]
    by (simp add: round_half_even_def Let_def)
  have r: "fl (2 ^ 600 / (7378697629483821 / 2 ^ 1066)) = PosInf"
    by (rule fl_overflow) simp
  from q s r
  show b: "bmi plain (mary\<lparr>height := Finite (1 / 2 ^ 500), weight := Finite (2 ^ 600)\<rparr>) =
      Inr PosInf"
    by (simp add: bmi_def cr_pow_2)
  show "verdict plain (mary\<lparr>height := Finite (1 / 2 ^ 500), weight := Finite (2 ^ 600)\<rparr>) =
      Inr ''Obese''"
    using b by (simp add: verdict_def verdict_of_def fl_values)
qed

section \<open>Validation and serialisation\<close>

lemma model_dump_keys:
  "model_dump_exclude_id L p = Inr d \<Longrightarrow>
   map fst d = [''name'', ''city'', ''age'', ''gender'', ''height'', ''weight'', ''bmi'', ''verdict'']"
  by (auto simp: model_dump_exclude_id_def split: sum.splits)

lemma Patient_init_valid: "Patient_init L kw = Inr obj \<Longrightarrow> Patient_valid obj"
  by (auto simp: Patient_init_def Patient_fields_def field_age_def field_positive_def
      Patient_valid_def split: option.splits Option.bind_splits if_splits)

lemma weight_rejected:
  "map_of kw ''weight'' = Some (PFloat (Finite w)) \<Longrightarrow> w \<le> 0 \<Longrightarrow>
   Patient_init L kw = Inl ValidationError"
  by (simp add: Patient_init_def Patient_fields_def field_positive_def
      split: option.splits Option.bind_splits)

lemma model_dump_mary: "model_dump_exclude_id plain mary = Inr rec_mary"
  by (simp add: model_dump_exclude_id_def verdict_def bmi_mary verdict_of_def fl_values)

section \<open>What create and update write\<close>

text \<open>
  C3 as the spec states it: the value written by create or update contains only the
  base fields, the derived fields bmi and verdict are never persisted. It fails:
  creating \<open>mary\<close> in an empty collection stores her bmi and verdict with the base
  fields.
\<close>

theorem stored_fields_counterexample:
  "create_patient plain mary [] =
     (Inr (JSONResponse 201 ''Patient created successfully''), [(''P003'', rec_mary)])
   \<and> \<not> set (map fst rec_mary) \<subseteq> {''name'', ''city'', ''age'', ''gender'', ''height'', ''weight''}"
  by (simp add: create_patient_def load_data_def save_data_def model_dump_mary)

text \<open>
  C3, amended. Every value that a successful create or update writes to the persisted
  collection has exactly the keys name, city, age, gender, height, weight, bmi and
  verdict: the identifier is excluded, the derived fields are persisted with the base
  fields.
\<close>

theorem stored_fields:
  "(create_patient L p file = (Inr (JSONResponse 201 ''Patient created successfully''), file') \<longrightarrow>
      (\<exists>d. map_of file' (id' p) = Some d \<and>
           map fst d = [''name'', ''city'', ''age'', ''gender'', ''height'', ''weight'',
                        ''bmi'', ''verdict'']))
 \<and> (update_patient L patient_id u file =
       (Inr (JSONResponse 200 ''Patient updated successfully''), file'') \<longrightarrow>
      (\<exists>d. map_of file'' patient_id = Some d \<and>
           map fst d = [''name'', ''city'', ''age'', ''gender'', ''height'', ''weight'',
                        ''bmi'', ''verdict'']))"
  by (auto simp: create_patient_def update_patient_def load_data_def save_data_def Let_def
      update_conv' model_dump_exclude_id_def split: if_splits sum.splits option.splits)

text \<open>The request \<open>weight_64\<close> applied to \<open>B\<close>.\<close>

lemma dump_weight_64: "model_dump_exclude_unset weight_64 = [(''weight'', PFloat (Finite 64))]"
  by (simp add: model_dump_exclude_unset_def dump_field_def Abs_positive_float_inverse)

lemma update_B_weight:
  "update_patient plain ''B'' weight_64 file_AB =
     (Inr (JSONResponse 200 ''Patient updated successfully''),
      [(''A'', rec_A),
       (''B'', [(''name'', PStr ''B''), (''city'', PStr ''Lima''), (''age'', PInt 25),
          (''gender'', PStr ''Female''), (''height'', PFloat (Finite 160)),
          (''weight'', PFloat (Finite 64)), (''bmi'', PFloat (Finite 25)),
          (''verdict'', PStr ''Overweight'')])])"
  using dump_weight_64
  by (simp add: update_patient_def load_data_def save_data_def merged_info_def
      Patient_init_def Patient_fields_def
      field_str_def field_age_def field_positive_def model_dump_exclude_id_def verdict_def
      bmi_def cr_pow_2 fl_values round_half_even_def Let_def verdict_of_def)

lemma create_mary:
  "create_patient plain mary file_AB =
     (Inr (JSONResponse 201 ''Patient created successfully''),
      [(''A'', rec_A), (''B'', rec_B), (''P003'', rec_mary)])"
  by (simp add: create_patient_def load_data_def save_data_def model_dump_mary)

theorem stored_fields_witness:
  "create_patient plain mary file_AB =
     (Inr (JSONResponse 201 ''Patient created successfully''),
      [(''A'', rec_A), (''B'', rec_B), (''P003'', rec_mary)])
   \<and> map fst rec_mary =
       [''name'', ''city'', ''age'', ''gender'', ''height'', ''weight'', ''bmi'', ''verdict'']
   \<and> fst (update_patient plain ''B'' weight_64 file_AB) =
       Inr (JSONResponse 200 ''Patient updated successfully'')
   \<and> map_of (snd (update_patient plain ''B'' weight_64 file_AB)) ''B'' =
       Some [(''name'', PStr ''B''), (''city'', PStr ''Lima''), (''age'', PInt 25),
          (''gender'', PStr ''Female''), (''height'', PFloat (Finite 160)),
          (''weight'', PFloat (Finite 64)), (''bmi'', PFloat (Finite 25)),
          (''verdict'', PStr ''Overweight'')]"
  using stored_fields [of plain mary file_AB "[(''A'', rec_A), (''B'', rec_B), (''P003'', rec_mary)]"
      "''B''" weight_64 "snd (update_patient plain ''B'' weight_64 file_AB)"]
    create_mary update_B_weight
  by simp

section \<open>Identifiers that are present or absent\<close>

lemma view_patient_absent:
  assumes "patient_id \<notin> fst ` set file"
  shows "view_patient patient_id file = (Inr (HTTPException 404 ''Patient not found''), file)"
proof -
  from assms have "map_of file patient_id = None"
    by (simp add: map_of_eq_None_iff)
  then show ?thesis
    by (simp add: view_patient_def load_data_def)
qed

text \<open>For an identifier that is already a key, create returns its exception object and
  writes nothing.\<close>

lemma create_patient_existing:
  "id' patient \<in> fst ` set file \<Longrightarrow>
   create_patient L patient file =
     (Inr (HTTPException 400 ''Patient with this ID already exists''), file)"
  by (simp add: create_patient_def load_data_def)

text \<open>
  C5. For every create payload whose identifier is already a key of the collection, the
  create operation signals a conflict error (400) and leaves the persisted state
  unchanged. The state is unchanged, but the handler returns the \<^verbatim>\<open>HTTPException\<close> object
  instead of raising it, so the response that is sent has status 200: creating
  \<open>mary\<close> a second time.
\<close>

theorem create_patient_duplicate_status:
  "create_patient plain mary [(''P003'', rec_mary)] =
     (Inr (HTTPException 400 ''Patient with this ID already exists''), [(''P003'', rec_mary)])
   \<and> status_sent (fst (create_patient plain mary [(''P003'', rec_mary)])) = 200"
  by (simp add: create_patient_def load_data_def)

text \<open>
  C6. For every stored collection and every identifier not present in it, the update
  operation signals not-found (a \<^verbatim>\<open>JSONResponse\<close> with status 404) and leaves the persisted
  state exactly unchanged.
\<close>

theorem update_patient_not_found:
  assumes "patient_id \<notin> fst ` set file"
  shows "update_patient L patient_id patient_update file =
           (Inr (JSONResponse 404 ''Patient not found''), file)
       \<and> status_sent (fst (update_patient L patient_id patient_update file)) = 404"
proof -
  from assms have "map_of file patient_id = None"
    by (simp add: map_of_eq_None_iff)
  then show ?thesis
    by (simp add: update_patient_def load_data_def)
qed

theorem update_patient_not_found_witness:
  "''P009'' \<notin> fst ` set file_AB
   \<and> update_patient plain ''P009'' (unset\<lparr>upd_city := Some (Some ''Kyiv'')\<rparr>) file_AB =
       (Inr (JSONResponse 404 ''Patient not found''), file_AB)
   \<and> status_sent (fst (update_patient plain ''P009''
         (unset\<lparr>upd_city := Some (Some ''Kyiv'')\<rparr>) file_AB)) = 404"
proof -
  have h: "''P009'' \<notin> fst ` set file_AB"
    by simp
  from update_patient_not_found [OF h] h show ?thesis
    by blast
qed

text \<open>
  C9. For every stored collection and every identifier present in it, the delete
  operation for that identifier followed by the view-one operation for the same
  identifier yields a not-found result: the delete succeeds and removes the key, and
  view-one then returns the value \<^verbatim>\<open>HTTPException(status_code=404, detail="Patient not found")\<close>.
\<close>

theorem delete_then_view:
  assumes "patient_id \<in> fst ` set file"
  shows "delete_patient patient_id file =
           (Inr (JSONResponse 200 ''Patient deleted successfully''), AList.delete patient_id file)
       \<and> view_patient patient_id (snd (delete_patient patient_id file)) =
           (Inr (HTTPException 404 ''Patient not found''), AList.delete patient_id file)"
  using assms
  by (simp add: delete_patient_def load_data_def save_data_def view_patient_absent delete_notin_dom)

theorem delete_then_view_witness:
  "''A'' \<in> fst ` set file_AB
   \<and> delete_patient ''A'' file_AB =
       (Inr (JSONResponse 200 ''Patient deleted successfully''), [(''B'', rec_B)])
   \<and> view_patient ''A'' (snd (delete_patient ''A'' file_AB)) =
       (Inr (HTTPException 404 ''Patient not found''), [(''B'', rec_B)])"
proof -
  have h: "''A'' \<in> fst ` set file_AB"
    by simp
  from delete_then_view [OF h] h show ?thesis
    by (simp add: delete_patient_def view_patient_def load_data_def save_data_def)
qed

section \<open>The other entries\<close>

text \<open>
  C10. For every stored collection and every successful create, update or delete
  operation on an identifier, the stored entry of every other identifier \<open>k\<close> is the
  same in the persisted state after the operation as before.
\<close>

theorem others_unchanged:
  "(k \<noteq> id' p \<and>
    fst (create_patient L p file) = Inr (JSONResponse 201 ''Patient created successfully'') \<longrightarrow>
      map_of (snd (create_patient L p file)) k = map_of file k)
   \<and> (k \<noteq> patient_id \<and>
       fst (update_patient L patient_id u file) =
         Inr (JSONResponse 200 ''Patient updated successfully'') \<longrightarrow>
      map_of (snd (update_patient L patient_id u file)) k = map_of file k)
   \<and> (k \<noteq> patient_id \<and>
       fst (delete_patient patient_id file) =
         Inr (JSONResponse 200 ''Patient deleted successfully'') \<longrightarrow>
      map_of (snd (delete_patient patient_id file)) k = map_of file k)"
  by (auto simp: create_patient_def update_patient_def delete_patient_def load_data_def
      save_data_def Let_def update_conv' delete_conv' split: if_splits sum.splits option.splits)

theorem others_unchanged_witness:
  "(''A'' \<noteq> id' mary \<and>
    fst (create_patient plain mary file_AB) = Inr (JSONResponse 201 ''Patient created successfully''))
   \<and> (''A'' \<noteq> ''B'' \<and>
       fst (update_patient plain ''B'' weight_64 file_AB) =
         Inr (JSONResponse 200 ''Patient updated successfully''))
   \<and> (''A'' \<noteq> ''B'' \<and>
       fst (delete_patient ''B'' file_AB) = Inr (JSONResponse 200 ''Patient deleted successfully''))
   \<and> map_of (snd (create_patient plain mary file_AB)) ''A'' = Some rec_A
   \<and> map_of (snd (update_patient plain ''B'' weight_64 file_AB))
       ''A'' = Some rec_A
   \<and> map_of (snd (delete_patient ''B'' file_AB)) ''A'' = Some rec_A"
proof -
  have c: "''A'' \<noteq> id' mary \<and>
      fst (create_patient plain mary file_AB) = Inr (JSONResponse 201 ''Patient created successfully'')"
    using create_mary by simp
  have u: "''A'' \<noteq> ''B'' \<and>
      fst (update_patient plain ''B'' weight_64 file_AB) =
        Inr (JSONResponse 200 ''Patient updated successfully'')"
    using update_B_weight by simp
  have d: "''A'' \<noteq> ''B'' \<and>
      fst (delete_patient ''B'' file_AB) = Inr (JSONResponse 200 ''Patient deleted successfully'')"
    by (simp add: delete_patient_def load_data_def)
  from others_unchanged [of "''A''" mary plain file_AB "''B''"
      weight_64] c u d
  show ?thesis
    by (simp add: delete_patient_def load_data_def save_data_def)
qed

section \<open>Partial update\<close>

lemma map_of_merge_items:
  "distinct (map fst items) \<Longrightarrow>
   map_of (merge_items d items) k =
     (case map_of items k of Some v \<Rightarrow> Some v | None \<Rightarrow> map_of d k)"
proof (induction items arbitrary: d)
  case Nil
  then show ?case by simp
next
  case (Cons kv items)
  obtain key val where kv: "kv = (key, val)"
    by (cases kv)
  from Cons.prems kv have notin: "key \<notin> fst ` set items" and dist: "distinct (map fst items)"
    by auto
  from notin have none: "map_of items key = None"
    by (simp add: map_of_eq_None_iff)
  show ?case
    using Cons.IH [OF dist, of "AList.update key val d"] none
    by (simp add: kv update_conv' split: option.splits)
qed

lemma keys_dump_field: "map fst (dump_field k wrap f) = (if f = None then [] else [k])"
  by (simp add: dump_field_def split: option.splits)

lemma distinct_model_dump_exclude_unset: "distinct (map fst (model_dump_exclude_unset u))"
  by (simp add: model_dump_exclude_unset_def keys_dump_field)

lemma map_of_merged_info:
  "k \<noteq> ''id'' \<Longrightarrow>
   map_of (merged_info patient_id existing u) k =
     (case map_of (model_dump_exclude_unset u) k of Some v \<Rightarrow> Some v | None \<Rightarrow> map_of existing k)"
  by (simp add: merged_info_def update_conv' map_of_merge_items distinct_model_dump_exclude_unset)

text \<open>What a validated record holds, and what its dump holds, field by field.\<close>

lemma Patient_init_fields:
  assumes "Patient_init L kw = Inr obj"
  shows "field_str kw ''name'' = Some (name obj)" and "field_str kw ''city'' = Some (city obj)"
    and "field_age L kw = Some (age obj)" and "field_str kw ''gender'' = Some (gender obj)"
    and "field_positive L kw ''height'' = Some (height obj)"
    and "field_positive L kw ''weight'' = Some (weight obj)"
  using assms
  by (auto simp: Patient_init_def Patient_fields_def split: option.splits Option.bind_splits)

lemma field_str_PStr: "field_str kw k = Some s \<Longrightarrow> map_of kw k = Some (PStr s)"
  by (auto simp: field_str_def split: Option.bind_splits elim: validate_str.elims)

text \<open>
  After a successful update the stored strings are those of the merged record, and a merged
  age that is an integer or a merged height or weight that is a float is stored as it is.
\<close>

lemma update_patient_stored:
  assumes "Patient_init L kw = Inr obj" and "model_dump_exclude_id L obj = Inr d"
  shows "map_of d ''name'' = map_of kw ''name''" and "map_of d ''city'' = map_of kw ''city''"
    and "map_of d ''gender'' = map_of kw ''gender''"
    and "map_of kw ''age'' = Some (PInt a) \<Longrightarrow> map_of d ''age'' = Some (PInt a)"
    and "map_of kw ''height'' = Some (PFloat h) \<Longrightarrow> map_of d ''height'' = Some (PFloat h)"
    and "map_of kw ''weight'' = Some (PFloat w) \<Longrightarrow> map_of d ''weight'' = Some (PFloat w)"
  using Patient_init_fields [OF assms(1)] assms(2)
  by (auto simp: model_dump_exclude_id_def field_age_def field_positive_def
      dest!: field_str_PStr split: sum.splits Option.bind_splits if_splits)

text \<open>
  C4. For every stored collection, every existing identifier and every partial-update
  payload: the record that update builds has, for every field, the supplied value where
  the payload sets the field and the prior value where it does not; that merged record
  is validated by the record model before anything is stored; when the validation fails
  the update raises and stores nothing, in particular when the merged weight is not
  positive; when it succeeds, either the computation of the derived fields raises and
  nothing is stored, or the dump of the validated record replaces the entry, and that dump
  holds the strings of the merged record, its age where that is an integer and its height
  and weight where they are floats.
\<close>

theorem update_patient_merge:
  assumes "map_of file patient_id = Some existing"
  shows "(\<forall>k. k \<noteq> ''id'' \<longrightarrow>
            map_of (merged_info patient_id existing u) k =
              (case map_of (model_dump_exclude_unset u) k of
                 Some v \<Rightarrow> Some v | None \<Rightarrow> map_of existing k))
       \<and> (Patient_init L (merged_info patient_id existing u) = Inl ValidationError \<longrightarrow>
            update_patient L patient_id u file = (Inl ValidationError, file))
       \<and> (\<forall>obj. Patient_init L (merged_info patient_id existing u) = Inr obj \<longrightarrow>
            (\<forall>e. model_dump_exclude_id L obj = Inl e \<longrightarrow>
                 update_patient L patient_id u file = (Inl e, file)) \<and>
            (\<forall>d. model_dump_exclude_id L obj = Inr d \<longrightarrow>
                 update_patient L patient_id u file =
                   (Inr (JSONResponse 200 ''Patient updated successfully''),
                    AList.update patient_id d file) \<and>
                 map_of d ''name'' = map_of (merged_info patient_id existing u) ''name'' \<and>
                 map_of d ''city'' = map_of (merged_info patient_id existing u) ''city'' \<and>
                 map_of d ''gender'' = map_of (merged_info patient_id existing u) ''gender'' \<and>
                 (\<forall>a. map_of (merged_info patient_id existing u) ''age'' = Some (PInt a) \<longrightarrow>
                      map_of d ''age'' = Some (PInt a)) \<and>
                 (\<forall>h. map_of (merged_info patient_id existing u) ''height'' = Some (PFloat h) \<longrightarrow>
                      map_of d ''height'' = Some (PFloat h)) \<and>
                 (\<forall>w. map_of (merged_info patient_id existing u) ''weight'' = Some (PFloat w) \<longrightarrow>
                      map_of d ''weight'' = Some (PFloat w))))
       \<and> (\<forall>w. map_of (merged_info patient_id existing u) ''weight'' = Some (PFloat (Finite w)) \<and>
               w \<le> 0 \<longrightarrow>
            update_patient L patient_id u file = (Inl ValidationError, file))"
proof (intro conjI allI impI)
  fix k :: string
  assume "k \<noteq> ''id''"
  then show "map_of (merged_info patient_id existing u) k =
      (case map_of (model_dump_exclude_unset u) k of
         Some v \<Rightarrow> Some v | None \<Rightarrow> map_of existing k)"
    by (rule map_of_merged_info)
next
  assume "Patient_init L (merged_info patient_id existing u) = Inl ValidationError"
  with assms show "update_patient L patient_id u file = (Inl ValidationError, file)"
    by (simp add: update_patient_def load_data_def)
next
  fix obj e
  assume "Patient_init L (merged_info patient_id existing u) = Inr obj"
    and "model_dump_exclude_id L obj = Inl e"
  with assms show "update_patient L patient_id u file = (Inl e, file)"
    by (simp add: update_patient_def load_data_def)
next
  fix obj d
  assume ok: "Patient_init L (merged_info patient_id existing u) = Inr obj"
    and d: "model_dump_exclude_id L obj = Inr d"
  from assms ok d show "update_patient L patient_id u file =
      (Inr (JSONResponse 200 ''Patient updated successfully''), AList.update patient_id d file)"
    by (simp add: update_patient_def load_data_def save_data_def)
  from update_patient_stored [OF ok d]
  show "map_of d ''name'' = map_of (merged_info patient_id existing u) ''name''"
    and "map_of d ''city'' = map_of (merged_info patient_id existing u) ''city''"
    and "map_of d ''gender'' = map_of (merged_info patient_id existing u) ''gender''"
    and "\<And>a. map_of (merged_info patient_id existing u) ''age'' = Some (PInt a) \<Longrightarrow>
      map_of d ''age'' = Some (PInt a)"
    and "\<And>h. map_of (merged_info patient_id existing u) ''height'' = Some (PFloat h) \<Longrightarrow>
      map_of d ''height'' = Some (PFloat h)"
    and "\<And>w. map_of (merged_info patient_id existing u) ''weight'' = Some (PFloat w) \<Longrightarrow>
      map_of d ''weight'' = Some (PFloat w)"
    by blast+
next
  fix w
  assume "map_of (merged_info patient_id existing u) ''weight'' = Some (PFloat (Finite w)) \<and> w \<le> 0"
  then have "Patient_init L (merged_info patient_id existing u) = Inl ValidationError"
    using weight_rejected by blast
  with assms show "update_patient L patient_id u file = (Inl ValidationError, file)"
    by (simp add: update_patient_def load_data_def)
qed

text \<open>
  In a file that holds \<open>rec_W\<close>, whose weight is \<open>-5\<close>, the request that moves \<open>W\<close> to
  another city is rejected and stores nothing. Setting the weight of \<open>B\<close> to 64 stores the new weight and
  keeps the height.
\<close>

theorem update_patient_merge_witness:
  "map_of [(''W'', rec_W)] ''W'' = Some rec_W
   \<and> map_of (merged_info ''W'' rec_W to_kyiv) ''city'' = Some (PStr ''Kyiv'')
   \<and> map_of (merged_info ''W'' rec_W to_kyiv) ''weight'' = Some (PFloat (Finite (- 5)))
   \<and> update_patient plain ''W'' to_kyiv [(''W'', rec_W)] = (Inl ValidationError, [(''W'', rec_W)])
   \<and> map_of file_AB ''B'' = Some rec_B
   \<and> map_of (merged_info ''B'' rec_B weight_64) ''weight'' = Some (PFloat (Finite 64))
   \<and> map_of (merged_info ''B'' rec_B weight_64) ''height'' = Some (PFloat (Finite 160))
   \<and> map_of (snd (update_patient plain ''B'' weight_64 file_AB)) ''B'' =
       Some [(''name'', PStr ''B''), (''city'', PStr ''Lima''), (''age'', PInt 25),
          (''gender'', PStr ''Female''), (''height'', PFloat (Finite 160)),
          (''weight'', PFloat (Finite 64)), (''bmi'', PFloat (Finite 25)),
          (''verdict'', PStr ''Overweight'')]"
proof -
  have w: "map_of [(''W'', rec_W)] ''W'' = Some rec_W" and b: "map_of file_AB ''B'' = Some rec_B"
    by simp_all
  have k: "map_of (model_dump_exclude_unset to_kyiv) ''city'' = Some (PStr ''Kyiv'')"
    "map_of (model_dump_exclude_unset to_kyiv) ''weight'' = None"
    by (simp_all add: model_dump_exclude_unset_def dump_field_def)
  have m: "map_of (model_dump_exclude_unset weight_64) ''weight'' = Some (PFloat (Finite 64))"
    "map_of (model_dump_exclude_unset weight_64) ''height'' = None"
    using dump_weight_64 by simp_all
  from update_patient_merge [OF w, of to_kyiv plain] update_patient_merge [OF b, of weight_64 plain]
    w b k m update_B_weight
  show ?thesis
    by simp
qed

section \<open>Sorting\<close>







text \<open>
  The records that the program writes have numbers under \<^verbatim>\<open>height\<close> and \<^verbatim>\<open>weight\<close>, and
  the handlers keep a collection of such records one. The \<^verbatim>\<open>bmi\<close> that the program
  writes may be NaN.
\<close>

lemma model_dump_numeric:
  "model_dump_exclude_id L p = Inr d \<Longrightarrow> Patient_valid p \<Longrightarrow>
   sort_by \<in> {''height'', ''weight''} \<Longrightarrow> is_number (dict_get d sort_by (PInt 0))"
  by (cases "height p"; cases "weight p")
    (auto simp: model_dump_exclude_id_def Patient_valid_def dict_get_def split: sum.splits)

lemma list_all_update:
  "list_all P (map snd al) \<Longrightarrow> P v \<Longrightarrow> list_all P (map snd (AList.update k v al))"
  by (induction al) auto

lemma list_all_delete:
  "list_all P (map snd al) \<Longrightarrow> list_all P (map snd (AList.delete k al))"
  by (induction al) auto

lemma numeric_preserved:
  assumes "sort_by \<in> {''height'', ''weight''}"
    and "list_all (\<lambda>x. is_number (dict_get x sort_by (PInt 0))) (map snd file)"
  shows "Patient_valid p \<Longrightarrow>
         list_all (\<lambda>x. is_number (dict_get x sort_by (PInt 0)))
           (map snd (snd (create_patient L p file)))"
    and "list_all (\<lambda>x. is_number (dict_get x sort_by (PInt 0)))
           (map snd (snd (update_patient L patient_id u file)))"
    and "list_all (\<lambda>x. is_number (dict_get x sort_by (PInt 0)))
           (map snd (snd (delete_patient patient_id file)))"
  using assms
  by (auto simp: create_patient_def update_patient_def delete_patient_def load_data_def
      save_data_def Let_def model_dump_numeric Patient_init_valid
      intro!: list_all_update list_all_delete split: sum.splits option.splits)




text \<open>
  C8. For every sort request whose \<^verbatim>\<open>sort_by\<close> is not in {height, weight, bmi} or whose
  \<^verbatim>\<open>order\<close> is not in {asc, desc}, the sort operation signals a bad-query error (400)
  and leaves the persisted storage untouched. The storage is untouched, but the handler
  returns the \<^verbatim>\<open>HTTPException\<close> object instead of raising it, so the response that is sent
  has status 200: sorting by name, and sorting in the order \<^verbatim>\<open>down\<close>.
\<close>

theorem sort_patients_invalid_status:
  "sort_patients ''name'' ''asc'' file_AB =
     (Inr (HTTPException 400
        ''Invalid sort field selected from ['height', 'weight', 'bmi']''), file_AB)
   \<and> status_sent (fst (sort_patients ''name'' ''asc'' file_AB)) = 200
   \<and> sort_patients ''bmi'' ''down'' file_AB =
     (Inr (HTTPException 400 ''Invalid sort order selected. Please select asc or desc''), file_AB)
   \<and> status_sent (fst (sort_patients ''bmi'' ''down'' file_AB)) = 200"
  by (simp add: sort_patients_def valid_fields_def)

text \<open>For every invalid request the value returned is the exception object with status
  400, and the file is as before.\<close>

lemma sort_patients_invalid:
  "sort_by \<notin> set valid_fields \<or> order \<notin> {''asc'', ''desc''} \<Longrightarrow>
   \<exists>detail. sort_patients sort_by order file = (Inr (HTTPException 400 detail), file)"
  by (auto simp: sort_patients_def)

end
